theory Spec2Isabelle
  imports Main
begin

section \<open>Tokens and the lexer interface\<close>

text \<open>
  Modelled from the spec: \<^verbatim>\<open>token/token.go\<close> is not among the sources. The token kinds
  are the ones the spec lists (section 3) under the names the parser and the spec's
  examples use for them (\<^verbatim>\<open>token.LET\<close>, \<^verbatim>\<open>token.IDENT\<close>, \<^verbatim>\<open>token.EOF\<close>, ...); the kind
  \<^verbatim>\<open>INT\<close> is written \<open>INT_lit\<close>, since \<open>INT\<close> is HOL syntax.
\<close>

datatype TokenType =
    ILLEGAL | EOF
  | IDENT | INT_lit
  | ASSIGN | PLUS | MINUS | BANG | ASTERISK | SLASH
  | LT | GT | EQ | NOT_EQ
  | COMMA | SEMICOLON
  | LPAREN | RPAREN | LBRACE | RBRACE
  | FUNCTION | LET | TRUE | FALSE | IF | ELSE | RETURN

text \<open>
  Modelled from the spec: how \<^verbatim>\<open>fmt.Sprintf("%s", ...)\<close> renders a token kind is fixed by
  the missing \<^verbatim>\<open>token.go\<close>; the kinds are rendered by the names above. No proof of a
  general statement below unfolds this function.
\<close>

fun TokenType_String :: "TokenType \<Rightarrow> string" where
  "TokenType_String ILLEGAL = ''ILLEGAL''"
| "TokenType_String EOF = ''EOF''"
| "TokenType_String IDENT = ''IDENT''"
| "TokenType_String INT_lit = ''INT''"
| "TokenType_String ASSIGN = ''ASSIGN''"
| "TokenType_String PLUS = ''PLUS''"
| "TokenType_String MINUS = ''MINUS''"
| "TokenType_String BANG = ''BANG''"
| "TokenType_String ASTERISK = ''ASTERISK''"
| "TokenType_String SLASH = ''SLASH''"
| "TokenType_String LT = ''LT''"
| "TokenType_String GT = ''GT''"
| "TokenType_String EQ = ''EQ''"
| "TokenType_String NOT_EQ = ''NOT_EQ''"
| "TokenType_String COMMA = ''COMMA''"
| "TokenType_String SEMICOLON = ''SEMICOLON''"
| "TokenType_String LPAREN = ''LPAREN''"
| "TokenType_String RPAREN = ''RPAREN''"
| "TokenType_String LBRACE = ''LBRACE''"
| "TokenType_String RBRACE = ''RBRACE''"
| "TokenType_String FUNCTION = ''FUNCTION''"
| "TokenType_String LET = ''LET''"
| "TokenType_String TRUE = ''TRUE''"
| "TokenType_String FALSE = ''FALSE''"
| "TokenType_String IF = ''IF''"
| "TokenType_String ELSE = ''ELSE''"
| "TokenType_String RETURN = ''RETURN''"

text \<open>
  A token: the parser reads the fields \<^verbatim>\<open>Type\<close> and \<^verbatim>\<open>Literal\<close> only.
\<close>

record Token =
  Type :: TokenType
  Literal :: string

text \<open>
  Modelled from the spec: \<^verbatim>\<open>lexer/lexer.go\<close> is not among the sources. A lexer is the
  list of tokens it has still to deliver; \<^verbatim>\<open>NextToken\<close> hands out the first one and
  advances. Once the list is used up it produces the end-of-input token, and "all
  subsequent calls keep returning it" (spec, section 4.1).
\<close>

type_synonym Lexer = "Token list"

definition eofToken :: Token where
  "eofToken = \<lparr>Type = EOF, Literal = []\<rparr>"

fun NextToken :: "Lexer \<Rightarrow> Token \<times> Lexer" where
  "NextToken [] = (eofToken, [])"
| "NextToken (t # ts) = (t, ts)"

section \<open>The syntax tree\<close>

text \<open>
  Modelled from the spec: \<^verbatim>\<open>ast/ast.go\<close> is not among the sources. The node kinds are
  those of the spec's data model (section 3); the fields of \<^verbatim>\<open>Identifier\<close>,
  \<^verbatim>\<open>LetStatement\<close> and \<^verbatim>\<open>ReturnStatement\<close> that the parser sets (\<^verbatim>\<open>Token\<close>, \<^verbatim>\<open>Name\<close>,
  \<^verbatim>\<open>Value\<close>) are taken from \<^verbatim>\<open>parser.go\<close>. A field of pointer or interface type that
  may be \<^verbatim>\<open>nil\<close> is an \<open>option\<close>.

  The parser returns its statement nodes as pointers (\<^verbatim>\<open>*ast.LetStatement\<close>,
  \<^verbatim>\<open>*ast.ReturnStatement\<close>) and \<^verbatim>\<open>parseStatement\<close> converts them to the interface
  \<^verbatim>\<open>ast.Statement\<close>. A value of the interface therefore carries the dynamic type and the
  pointer, and the pointer may be \<^verbatim>\<open>nil\<close>: \<open>LetStatement_ptr None\<close> is the interface
  value that holds a nil \<^verbatim>\<open>*ast.LetStatement\<close>. It is not the nil interface, which is
  \<open>None :: Statement option\<close>.
\<close>

record Identifier =
  ident_Token :: Token
  ident_Value :: string

datatype Expression =
    Identifier_expr Identifier
  | IntegerLiteral int
  | BooleanLiteral bool
  | PrefixExpression string Expression
  | InfixExpression string Expression Expression
  | IfExpression Expression BlockStatement "BlockStatement option"
  | FunctionLiteral "Identifier list" BlockStatement
  | CallExpression Expression "Expression list"
and Statement =
    LetStatement_ptr "LetStatement option"
  | ReturnStatement_ptr "ReturnStatement option"
  | ExpressionStatement_ptr Expression
  | BlockStatement_ptr BlockStatement
and LetStatement =
    LetStatement (let_Token: Token) (let_Name: "Identifier option") (let_Value: "Expression option")
and ReturnStatement =
    ReturnStatement (ret_Token: Token) (ret_ReturnValue: "Expression option")
and BlockStatement =
    BlockStatement "Statement list"

record Program =
  Statements :: "Statement list"

section \<open>The parser (\<^verbatim>\<open>parser/parser.go\<close>)\<close>

text \<open>
  The fields \<^verbatim>\<open>prefixParseFns\<close> and \<^verbatim>\<open>infixParseFns\<close> of the struct are never
  initialised, read or written by any function that \<^verbatim>\<open>New\<close> or \<^verbatim>\<open>ParseProgram\<close>
  reaches (\<^verbatim>\<open>registerPrefix\<close> and \<^verbatim>\<open>registerInfix\<close> have no caller), so the state of
  the parser is the lexer, the two tokens of lookahead and the diagnostics.
\<close>

record Parser =
  l :: Lexer
  curToken :: Token
  peekToken :: Token
  errors :: "string list"

definition nextToken :: "Parser \<Rightarrow> Parser" where
  "nextToken p =
     (let (tok, lx) = NextToken (l p)
      in p\<lparr>curToken := peekToken p, peekToken := tok, l := lx\<rparr>)"

text \<open>
  \<^verbatim>\<open>New\<close> builds the struct and calls \<^verbatim>\<open>nextToken\<close> twice. The two token fields of the
  fresh struct hold Go's zero value, which the two calls overwrite before anything
  reads it; the model starts from the first two tokens of the lexer directly.
\<close>

definition New :: "Lexer \<Rightarrow> Parser" where
  "New lx =
     (let (t1, lx1) = NextToken lx;
          (t2, lx2) = NextToken lx1
      in \<lparr>l = lx2, curToken = t1, peekToken = t2, errors = []\<rparr>)"

definition Errors :: "Parser \<Rightarrow> string list" where
  "Errors p = errors p"

definition peekErrors :: "Parser \<Rightarrow> TokenType \<Rightarrow> Parser" where
  "peekErrors p t =
     (let msg = ''expected next token to be '' @ TokenType_String t @ '', got '' @
                TokenType_String (Type (peekToken p)) @ '' instead''
      in p\<lparr>errors := errors p @ [msg]\<rparr>)"

definition curTokenIs :: "Parser \<Rightarrow> TokenType \<Rightarrow> bool" where
  "curTokenIs p t = (Type (curToken p) = t)"

definition peekTokenIs :: "Parser \<Rightarrow> TokenType \<Rightarrow> bool" where
  "peekTokenIs p t = (Type (peekToken p) = t)"

definition expectPeek :: "Parser \<Rightarrow> TokenType \<Rightarrow> bool \<times> Parser" where
  "expectPeek p t =
     (if peekTokenIs p t then (True, nextToken p) else (False, peekErrors p t))"

text \<open>
  The loop \<^verbatim>\<open>for !p.curTokenIs(token.SEMICOLON) { p.nextToken() }\<close> of both statement
  parsers. It has no other exit, so it may run forever: \<open>None\<close> is "does not return".
\<close>

partial_function (option) skipToSemicolon :: "Parser \<Rightarrow> Parser option" where
  "skipToSemicolon p =
     (if \<not> curTokenIs p SEMICOLON then skipToSemicolon (nextToken p) else Some p)"

declare skipToSemicolon.simps [code]

text \<open>
  The statement parsers return the node (a pointer, \<open>None\<close> for \<^verbatim>\<open>nil\<close>) and the parser
  state they leave behind; the outer \<open>option\<close> is \<open>None\<close> when the call does not return.
\<close>

definition parseLetStatment :: "Parser \<Rightarrow> (LetStatement option \<times> Parser) option" where
  "parseLetStatment p =
     (let tok = curToken p in
      case expectPeek p IDENT of
        (False, p1) \<Rightarrow> Some (None, p1)
      | (True, p1) \<Rightarrow>
          (let name = \<lparr>ident_Token = curToken p1, ident_Value = Literal (curToken p1)\<rparr> in
           case expectPeek p1 ASSIGN of
             (False, p2) \<Rightarrow> Some (None, p2)
           | (True, p2) \<Rightarrow>
               (case skipToSemicolon p2 of
                  None \<Rightarrow> None
                | Some p3 \<Rightarrow> Some (Some (LetStatement tok (Some name) None), p3))))"

definition parseReturnStatment :: "Parser \<Rightarrow> (ReturnStatement option \<times> Parser) option" where
  "parseReturnStatment p =
     (let stmt = ReturnStatement (curToken p) None;
          p1 = nextToken p
      in case skipToSemicolon p1 of
           None \<Rightarrow> None
         | Some p2 \<Rightarrow> Some (Some stmt, p2))"

text \<open>
  \<^verbatim>\<open>parseStatement\<close> returns the interface \<^verbatim>\<open>ast.Statement\<close>: the pointer of a statement
  parser wrapped with its type (also when the pointer is nil), or the nil interface in
  the default case.
\<close>

definition parseStatement :: "Parser \<Rightarrow> (Statement option \<times> Parser) option" where
  "parseStatement p =
     (case Type (curToken p) of
        LET \<Rightarrow> map_option (\<lambda>(s, p'). (Some (LetStatement_ptr s), p')) (parseLetStatment p)
      | RETURN \<Rightarrow> map_option (\<lambda>(s, p'). (Some (ReturnStatement_ptr s), p')) (parseReturnStatment p)
      | _ \<Rightarrow> Some (None, p))"

text \<open>
  The loop of \<^verbatim>\<open>ParseProgram\<close>, with the statements collected so far. \<^verbatim>\<open>stmt != nil\<close>
  compares the interface value with the nil interface.
\<close>

partial_function (option) ParseProgram_loop ::
    "Parser \<Rightarrow> Statement list \<Rightarrow> (Program \<times> Parser) option" where
  "ParseProgram_loop p stmts =
     (if Type (curToken p) \<noteq> EOF then
        (case parseStatement p of
           None \<Rightarrow> None
         | Some (stmt, p1) \<Rightarrow>
             ParseProgram_loop (nextToken p1)
               (case stmt of Some s \<Rightarrow> stmts @ [s] | None \<Rightarrow> stmts))
      else Some (\<lparr>Statements = stmts\<rparr>, p))"

declare ParseProgram_loop.simps [code]

definition ParseProgram :: "Parser \<Rightarrow> (Program \<times> Parser) option" where
  "ParseProgram p = ParseProgram_loop p []"

section \<open>The interactive shell (\<^verbatim>\<open>repl/repl.go\<close>)\<close>

definition MONKEY_FACE :: string where
  "MONKEY_FACE = [CHR 0x0A] @ concat (map (\<lambda>ln. ln @ [CHR 0x0A])
     [''            __,__'',
      ''   .--.  .-'' @ [CHR 0x22] @ ''     '' @ [CHR 0x22] @ ''-.  .--.'',
      ''  / .. '' @ [CHR 0x5C] @ ''/  .-. .-.  '' @ [CHR 0x5C] @ ''/ .. '' @ [CHR 0x5C],
      '' | |  '' @ [CHR 0x27] @ ''|  /   Y   '' @ [CHR 0x5C] @ ''  |'' @ [CHR 0x27] @ ''  | |'',
      '' | '' @ [CHR 0x5C] @ ''   '' @ [CHR 0x5C] @ ''  '' @ [CHR 0x5C] @ '' 0 | 0 /  /   / |'',
      ''  '' @ [CHR 0x5C] @ '' '' @ [CHR 0x27] @ ''- ,'' @ [CHR 0x5C] @ ''.-'' @ [CHR 0x22] @ [CHR 0x22] @ [CHR 0x22] @ [CHR 0x22] @ [CHR 0x22] @ [CHR 0x22] @ [CHR 0x22] @ ''-./, -'' @ [CHR 0x27] @ '' /'',
      ''   '' @ [CHR 0x27] @ [CHR 0x27] @ ''-'' @ [CHR 0x27] @ '' /_   ^ ^   _'' @ [CHR 0x5C] @ '' '' @ [CHR 0x27] @ ''-'' @ [CHR 0x27] @ [CHR 0x27],
      ''       |  '' @ [CHR 0x5C] @ ''._   _./  |'',
      ''       '' @ [CHR 0x5C] @ ''   '' @ [CHR 0x5C] @ '' '' @ [CHR 0x27] @ ''~'' @ [CHR 0x27] @ '' /   /'',
      ''        '' @ [CHR 0x27] @ ''._ '' @ [CHR 0x27] @ ''-=-'' @ [CHR 0x27] @ '' _.'' @ [CHR 0x27],
      ''           '' @ [CHR 0x27] @ ''-----'' @ [CHR 0x27]])"


definition DEBUG :: bool where
  "DEBUG = False"

text \<open>
  What the shell does, in the order it does it: a write to the writer \<^verbatim>\<open>out\<close>
  (\<^verbatim>\<open>io.WriteString(out, s)\<close>), a write to the standard output (\<^verbatim>\<open>fmt.Print\<close>), and a
  call \<^verbatim>\<open>evaluator.Eval(program)\<close>, recorded with the argument it is given.
\<close>

datatype event = Out string | Stdout string | EvalCall Program

fun evalCalls :: "event list \<Rightarrow> Program list" where
  "evalCalls [] = []"
| "evalCalls (EvalCall prog # evs) = prog # evalCalls evs"
| "evalCalls (_ # evs) = evalCalls evs"

fun written :: "event list \<Rightarrow> string list" where
  "written [] = []"
| "written (Out s # evs) = s # written evs"
| "written (_ # evs) = written evs"

definition printParserErrors :: "string list \<Rightarrow> event list" where
  "printParserErrors errs =
     [Out MONKEY_FACE,
      Out ''Woops! We ran into some monkey business here!\<newline>'',
      Out '' parser errors:\<newline>''] @
     map (\<lambda>msg. Out ([CHR 0x09] @ msg @ ''\<newline>'')) errs"

text \<open>
  One turn of the loop of \<^verbatim>\<open>Start\<close>, from \<^verbatim>\<open>line := scanner.Text()\<close> on. The packages
  \<^verbatim>\<open>lexer\<close>, \<^verbatim>\<open>evaluator\<close>, \<^verbatim>\<open>object\<close> and \<^verbatim>\<open>ast\<close> are not among the sources, so
  \<^item> the line is given as the lexer \<^verbatim>\<open>lexer.New(line)\<close> makes of it;
  \<^item> \<^verbatim>\<open>evaluator.Eval\<close>, which the shell calls with the program as its only argument,
    is the parameter \<open>Eval\<close> (\<open>None\<close> is the nil object);
  \<^item> the method \<^verbatim>\<open>Inspect\<close> of the object and the method \<^verbatim>\<open>String\<close> of the program are
    the parameters \<open>Inspect\<close> and \<open>String\<close>.
  The result is \<open>None\<close> when \<^verbatim>\<open>ParseProgram\<close> does not return.
\<close>

definition replLine ::
    "(Program \<Rightarrow> 'obj option) \<Rightarrow> ('obj \<Rightarrow> string) \<Rightarrow> (Program \<Rightarrow> string) \<Rightarrow> Lexer \<Rightarrow>
     event list option" where
  "replLine Eval Inspect String lx =
     (let p = New lx in
      case ParseProgram p of
        None \<Rightarrow> None
      | Some (program, p') \<Rightarrow>
          if length (Errors p') \<noteq> 0 then Some (printParserErrors (Errors p'))
          else
            (let evaluated = Eval program in
             Some ([EvalCall program] @
                   (case evaluated of
                      Some obj \<Rightarrow> [Out (Inspect obj), Out ''\<newline>'']
                    | None \<Rightarrow> []) @
                   (if DEBUG
                    then [Out ''DEBUG AST: '', Out (String program), Out ''\<newline>'']
                    else []))))"


section \<open>Notions used to state the properties\<close>

text \<open>
  The parser state that \<^verbatim>\<open>New\<close> and any number of calls of \<^verbatim>\<open>nextToken\<close> lead to is
  fixed by the tokens from the current one on and by the diagnostics collected so far.
\<close>

definition parserAt :: "string list \<Rightarrow> Token list \<Rightarrow> Parser" where
  "parserAt errs ts = (New ts)\<lparr>errors := errs\<rparr>"

text \<open>No token that the parser holds or that the lexer still has is a semicolon.\<close>

definition noSemicolonAhead :: "Parser \<Rightarrow> bool" where
  "noSemicolonAhead p \<longleftrightarrow>
     Type (curToken p) \<noteq> SEMICOLON \<and> Type (peekToken p) \<noteq> SEMICOLON \<and>
     list_all (\<lambda>t. Type t \<noteq> SEMICOLON) (l p)"

text \<open>What a run of the parser shows to its caller: the program and the diagnostics.\<close>

definition parseResult :: "Lexer \<Rightarrow> (Program \<times> string list) option" where
  "parseResult lx = map_option (\<lambda>(program, p). (program, Errors p)) (ParseProgram (New lx))"

fun isLetOrReturn :: "Statement \<Rightarrow> bool" where
  "isLetOrReturn (LetStatement_ptr _) = True"
| "isLetOrReturn (ReturnStatement_ptr _) = True"
| "isLetOrReturn _ = False"

text \<open>
  The token streams of the source texts used below, as the spec's example for
  \<^verbatim>\<open>"let five = 5;"\<close> gives them (kind and literal); the end-of-input token that closes
  each stream is the one the lexer delivers when the list is used up.
\<close>

definition tok :: "TokenType \<Rightarrow> string \<Rightarrow> Token" where
  "tok t s = \<lparr>Type = t, Literal = s\<rparr>"

definition tokens_let_x_5 :: Lexer where
  "tokens_let_x_5 = [tok LET ''let'', tok IDENT ''x'', tok INT_lit ''5'', tok SEMICOLON '';'']"

definition tokens_let_x_eq_5 :: Lexer where
  "tokens_let_x_eq_5 =
     [tok LET ''let'', tok IDENT ''x'', tok ASSIGN ''='', tok INT_lit ''5'', tok SEMICOLON '';'']"

definition tokens_let_x_eq_5_open :: Lexer where
  "tokens_let_x_eq_5_open =
     [tok LET ''let'', tok IDENT ''x'', tok ASSIGN ''='', tok INT_lit ''5'']"

definition tokens_return_5 :: Lexer where
  "tokens_return_5 = [tok RETURN ''return'', tok INT_lit ''5'', tok SEMICOLON '';'']"

definition tokens_return_5_open :: Lexer where
  "tokens_return_5_open = [tok RETURN ''return'', tok INT_lit ''5'']"

definition tokens_x :: Lexer where
  "tokens_x = [tok IDENT ''x'', tok SEMICOLON '';'']"

definition tokens_1_plus_2_times_3 :: Lexer where
  "tokens_1_plus_2_times_3 =
     [tok INT_lit ''1'', tok PLUS ''+'', tok INT_lit ''2'', tok ASTERISK ''*'',
      tok INT_lit ''3'', tok SEMICOLON '';'']"

definition tokens_paren_1_plus_2_times_3 :: Lexer where
  "tokens_paren_1_plus_2_times_3 =
     [tok LPAREN ''('', tok INT_lit ''1'', tok PLUS ''+'', tok INT_lit ''2'', tok RPAREN '')'',
      tok ASTERISK ''*'', tok INT_lit ''3'', tok SEMICOLON '';'']"

section \<open>Auxiliary facts\<close>

subsection \<open>Parser states as positions in the token stream\<close>

lemma New_parserAt: "New ts = parserAt [] ts"
  by (simp add: parserAt_def New_def split: prod.splits)

lemma nextToken_parserAt_Cons: "nextToken (parserAt errs (t # ts)) = parserAt errs ts"
  by (cases ts rule: NextToken.cases; cases "tl ts" rule: NextToken.cases)
     (auto simp: parserAt_def New_def nextToken_def split: prod.splits)

lemma nextToken_parserAt_Nil: "nextToken (parserAt errs []) = parserAt errs []"
  by (simp add: parserAt_def New_def nextToken_def)

lemma curToken_parserAt: "curToken (parserAt errs ts) = fst (NextToken ts)"
  by (simp add: parserAt_def New_def split: prod.splits)

lemma peekToken_parserAt: "peekToken (parserAt errs ts) = fst (NextToken (snd (NextToken ts)))"
  by (simp add: parserAt_def New_def split: prod.splits)

lemma errors_parserAt: "errors (parserAt errs ts) = errs"
  by (simp add: parserAt_def New_def split: prod.splits)

lemma errors_update_parserAt: "(parserAt errs ts)\<lparr>errors := errs'\<rparr> = parserAt errs' ts"
  by (simp add: parserAt_def New_def split: prod.splits)

lemma skip_done: "curTokenIs p SEMICOLON \<Longrightarrow> skipToSemicolon p = Some p"
  by (subst skipToSemicolon.simps) simp

lemma skip_step:
  "\<not> curTokenIs p SEMICOLON \<Longrightarrow> skipToSemicolon p = skipToSemicolon (nextToken p)"
  by (subst skipToSemicolon.simps) simp

lemma skip_finds:
  "list_all (\<lambda>e. Type e \<noteq> SEMICOLON) es \<Longrightarrow> Type s = SEMICOLON \<Longrightarrow>
   skipToSemicolon (parserAt errs (es @ s # rest)) = Some (parserAt errs (s # rest))"
proof (induction es)
  case Nil
  then show ?case by (simp add: skip_done curTokenIs_def curToken_parserAt)
next
  case (Cons e es)
  then show ?case
    by (simp add: skip_step curTokenIs_def curToken_parserAt nextToken_parserAt_Cons)
qed

lemma noSemicolonAhead_nextToken: "noSemicolonAhead p \<Longrightarrow> noSemicolonAhead (nextToken p)"
  by (cases "l p") (auto simp: noSemicolonAhead_def nextToken_def eofToken_def)

lemma skip_returns_semicolon_ahead:
  assumes "skipToSemicolon p = Some q"
  shows "\<not> noSemicolonAhead p"
proof (rule skipToSemicolon.raw_induct [where P = "\<lambda>p q. \<not> noSemicolonAhead p", OF _ assms])
  fix skip p q
  assume IH: "\<And>x y. skip x = Some y \<Longrightarrow> \<not> noSemicolonAhead x"
    and step: "(if \<not> curTokenIs p SEMICOLON then skip (nextToken p) else Some p) = Some q"
  show "\<not> noSemicolonAhead p"
  proof (cases "curTokenIs p SEMICOLON")
    case True
    then show ?thesis by (simp add: noSemicolonAhead_def curTokenIs_def)
  next
    case False
    with step have "skip (nextToken p) = Some q" by simp
    then have "\<not> noSemicolonAhead (nextToken p)" by (rule IH)
    then show ?thesis using noSemicolonAhead_nextToken by blast
  qed
qed

lemma skip_diverges: "noSemicolonAhead p \<Longrightarrow> skipToSemicolon p = None"
  using skip_returns_semicolon_ahead by (cases "skipToSemicolon p") auto

lemma loop_done:
  "Type (curToken p) = EOF \<Longrightarrow> ParseProgram_loop p stmts = Some (\<lparr>Statements = stmts\<rparr>, p)"
  by (subst ParseProgram_loop.simps) simp

lemma loop_hang:
  "Type (curToken p) \<noteq> EOF \<Longrightarrow> parseStatement p = None \<Longrightarrow> ParseProgram_loop p stmts = None"
  by (subst ParseProgram_loop.simps) simp

lemma loop_step:
  "Type (curToken p) \<noteq> EOF \<Longrightarrow> parseStatement p = Some (stmt, p1) \<Longrightarrow>
   ParseProgram_loop p stmts =
   ParseProgram_loop (nextToken p1) (case stmt of Some s \<Rightarrow> stmts @ [s] | None \<Rightarrow> stmts)"
  by (subst ParseProgram_loop.simps) simp

lemma noSemicolonAhead_parserAt:
  "noSemicolonAhead (parserAt errs ts) \<longleftrightarrow> list_all (\<lambda>t. Type t \<noteq> SEMICOLON) ts"
  by (cases ts rule: NextToken.cases; cases "tl ts" rule: NextToken.cases)
     (auto simp: noSemicolonAhead_def parserAt_def New_def eofToken_def)

lemma expectPeek_parserAt_ok:
  "Type t2 = k \<Longrightarrow>
   expectPeek (parserAt errs (t1 # t2 # ts)) k = (True, parserAt errs (t2 # ts))"
  by (simp add: expectPeek_def peekTokenIs_def peekToken_parserAt nextToken_parserAt_Cons)

lemma parseLet_parserAt:
  assumes "Type idt = IDENT" and "Type asg = ASSIGN"
  shows "parseLetStatment (parserAt errs (lt # idt # asg # ts)) =
         map_option (Pair (Some (LetStatement lt
             (Some \<lparr>ident_Token = idt, ident_Value = Literal idt\<rparr>) None)))
           (skipToSemicolon (parserAt errs (asg # ts)))"
  using assms
  by (simp add: parseLetStatment_def expectPeek_parserAt_ok curToken_parserAt
           split: option.splits)

lemma parseReturn_parserAt:
  "parseReturnStatment (parserAt errs (rt # ts)) =
   map_option (Pair (Some (ReturnStatement rt None))) (skipToSemicolon (parserAt errs ts))"
  by (simp add: parseReturnStatment_def nextToken_parserAt_Cons curToken_parserAt
           split: option.splits)

subsection \<open>What the loop of ParseProgram collects\<close>

lemma parseStatement_default:
  "Type (curToken p) \<noteq> LET \<Longrightarrow> Type (curToken p) \<noteq> RETURN \<Longrightarrow>
   parseStatement p = Some (None, p)"
  by (cases "Type (curToken p)") (simp_all add: parseStatement_def)

lemma parseStatement_node_kind:
  "parseStatement p = Some (Some s, p1) \<Longrightarrow> isLetOrReturn s"
  by (cases "Type (curToken p)") (auto simp: parseStatement_def)

lemma loop_only_let_return:
  assumes "ParseProgram_loop p stmts = Some r"
  shows "list_all isLetOrReturn stmts \<longrightarrow> list_all isLetOrReturn (Statements (fst r))"
proof (rule ParseProgram_loop.raw_induct
    [where P = "\<lambda>p stmts r. list_all isLetOrReturn stmts \<longrightarrow>
                  list_all isLetOrReturn (Statements (fst r))", OF _ assms])
  fix loop p stmts r
  assume IH: "\<And>x ss y. loop x ss = Some y \<Longrightarrow>
      list_all isLetOrReturn ss \<longrightarrow> list_all isLetOrReturn (Statements (fst y))"
    and step: "(if Type (curToken p) \<noteq> EOF then
                  (case parseStatement p of
                     None \<Rightarrow> None
                   | Some (stmt, p1) \<Rightarrow>
                       loop (nextToken p1)
                         (case stmt of None \<Rightarrow> stmts | Some s \<Rightarrow> stmts @ [s]))
                else Some (\<lparr>Statements = stmts\<rparr>, p)) = Some r"
  show "list_all isLetOrReturn stmts \<longrightarrow> list_all isLetOrReturn (Statements (fst r))"
  proof
    assume ok: "list_all isLetOrReturn stmts"
    show "list_all isLetOrReturn (Statements (fst r))"
    proof (cases "Type (curToken p) = EOF")
      case True
      with step ok show ?thesis by auto
    next
      case False
      with step obtain stmt p1 where ps: "parseStatement p = Some (stmt, p1)"
        and rec: "loop (nextToken p1) (case stmt of None \<Rightarrow> stmts | Some s \<Rightarrow> stmts @ [s]) = Some r"
        by (auto split: option.splits)
      have "list_all isLetOrReturn (case stmt of None \<Rightarrow> stmts | Some s \<Rightarrow> stmts @ [s])"
        using ok ps parseStatement_node_kind by (cases stmt) auto
      with IH [OF rec] show ?thesis by simp
    qed
  qed
qed

lemma loop_drops_all:
  "list_all (\<lambda>t. Type t \<noteq> LET \<and> Type t \<noteq> RETURN) ts \<Longrightarrow>
   map_option (\<lambda>(program, q). (program, Errors q)) (ParseProgram_loop (parserAt errs ts) stmts) =
     Some (\<lparr>Statements = stmts\<rparr>, errs)"
proof (induction ts)
  case Nil
  show ?case
    by (simp add: loop_done curToken_parserAt eofToken_def Errors_def errors_parserAt)
next
  case (Cons t ts)
  show ?case
  proof (cases "Type t = EOF")
    case True
    then show ?thesis
      by (simp add: loop_done curToken_parserAt Errors_def errors_parserAt)
  next
    case False
    have "parseStatement (parserAt errs (t # ts)) = Some (None, parserAt errs (t # ts))"
      using Cons.prems by (intro parseStatement_default) (simp_all add: curToken_parserAt)
    with False have "ParseProgram_loop (parserAt errs (t # ts)) stmts =
        ParseProgram_loop (parserAt errs ts) stmts"
      by (simp add: loop_step curToken_parserAt nextToken_parserAt_Cons)
    with Cons show ?thesis by simp
  qed
qed

subsection \<open>The shell\<close>

lemma evalCalls_printParserErrors: "evalCalls (printParserErrors errs) = []"
  by (induction errs) (simp_all add: printParserErrors_def)

lemma written_printParserErrors:
  "written (printParserErrors errs) =
     [MONKEY_FACE, ''Woops! We ran into some monkey business here!\<newline>'',
      '' parser errors:\<newline>''] @
     map (\<lambda>msg. [CHR 0x09] @ msg @ ''\<newline>'') errs"
  by (induction errs) (simp_all add: printParserErrors_def)




section \<open>The claims\<close>

text \<open>
  C1 (termination of \<^verbatim>\<open>ParseProgram\<close> on every token stream, also when no semicolon
  comes before the end of input). The code does not do this. On the token stream of
  \<^verbatim>\<open>let x = 5\<close> (no semicolon) the loop of \<^verbatim>\<open>parseLetStatment\<close> never sees a semicolon:
  once the lexer is used up it delivers the end-of-input token again and again, and
  the loop has no test for it, unlike the loop of \<^verbatim>\<open>ParseProgram\<close> itself, which stops
  at the end of input. \<^verbatim>\<open>parseLetStatment\<close> does not return, and so neither does
  \<^verbatim>\<open>ParseProgram\<close>; the same holds for \<^verbatim>\<open>parseReturnStatment\<close> on \<^verbatim>\<open>return 5\<close>.
\<close>

theorem ParseProgram_never_returns_without_semicolon:
  "parseLetStatment (New tokens_let_x_eq_5_open) = None \<and>
   ParseProgram (New tokens_let_x_eq_5_open) = None \<and>
   parseReturnStatment (New tokens_return_5_open) = None \<and>
   ParseProgram (New tokens_return_5_open) = None"
proof -
  have a: "parseLetStatment (New tokens_let_x_eq_5_open) = None"
    by (simp add: tokens_let_x_eq_5_open_def tok_def New_parserAt parseLet_parserAt
          skip_diverges noSemicolonAhead_parserAt)
  have b: "parseReturnStatment (New tokens_return_5_open) = None"
    by (simp add: tokens_return_5_open_def tok_def New_parserAt parseReturn_parserAt
          skip_diverges noSemicolonAhead_parserAt)
  have ca: "Type (curToken (New tokens_let_x_eq_5_open)) = LET"
    by (simp add: tokens_let_x_eq_5_open_def tok_def New_def)
  have c: "ParseProgram (New tokens_let_x_eq_5_open) = None"
    unfolding ParseProgram_def
    by (rule loop_hang) (simp_all add: parseStatement_def a ca)
  have da: "Type (curToken (New tokens_return_5_open)) = RETURN"
    by (simp add: tokens_return_5_open_def tok_def New_def)
  have d: "ParseProgram (New tokens_return_5_open) = None"
    unfolding ParseProgram_def
    by (rule loop_hang) (simp_all add: parseStatement_def b da)
  from a b c d show ?thesis by simp
qed




text \<open>
  C3 (precedence: \<^verbatim>\<open>1 + 2 * 3;\<close> parses to \<^verbatim>\<open>(1 + (2 * 3))\<close>, \<^verbatim>\<open>(1 + 2) * 3;\<close> to
  \<^verbatim>\<open>((1 + 2) * 3)\<close>, and the two differ). As stated the claim fails: the parser has no
  expression parsing, neither stream yields an infix expression, and the two results
  (program and diagnostics) are equal.
\<close>

theorem ParseProgram_precedence_not_observable:
  "parseResult tokens_1_plus_2_times_3 = parseResult tokens_paren_1_plus_2_times_3 \<and>
   parseResult tokens_1_plus_2_times_3 \<noteq>
     Some (\<lparr>Statements = [ExpressionStatement_ptr
              (InfixExpression ''+'' (IntegerLiteral 1)
                 (InfixExpression ''*'' (IntegerLiteral 2) (IntegerLiteral 3)))]\<rparr>, [])"
  by code_simp

text \<open>
  C3, as the code has it: for the token stream of \<^verbatim>\<open>1 + 2 * 3;\<close> and for that of
  \<^verbatim>\<open>(1 + 2) * 3;\<close>, \<^verbatim>\<open>ParseProgram\<close> returns a program without statements and no
  diagnostics.
\<close>

theorem ParseProgram_expression_statements_dropped:
  "parseResult tokens_1_plus_2_times_3 = Some (\<lparr>Statements = []\<rparr>, []) \<and>
   parseResult tokens_paren_1_plus_2_times_3 = Some (\<lparr>Statements = []\<rparr>, [])"
  by code_simp

text \<open>
  C4 (the node that \<^verbatim>\<open>parseLetStatment\<close> returns holds the identifier and the parsed
  value expression). As stated the claim fails: on the token stream of \<^verbatim>\<open>let x = 5;\<close>
  the statement is accepted without diagnostics and the node holds the identifier
  \<^verbatim>\<open>x\<close>, but its value field is nil, not the integer literal 5.
\<close>

theorem parseLetStatment_value_unset:
  "parseLetStatment (New tokens_let_x_eq_5) =
     Some (Some (LetStatement (tok LET ''let'')
                   (Some \<lparr>ident_Token = tok IDENT ''x'', ident_Value = ''x''\<rparr>) None),
           New [tok SEMICOLON '';''])"
  by code_simp

text \<open>
  C4, as the code has it: on a token stream that starts with any token (the \<^verbatim>\<open>let\<close>),
  an identifier and an assignment sign, and that has a semicolon further on,
  \<^verbatim>\<open>parseLetStatment\<close> returns a node with the first token, the identifier as its name
  and no value expression. The tokens up to the first semicolon are skipped: the parser
  is left on that semicolon, exactly as a fresh parser on the rest of the stream, with
  no diagnostic.
\<close>

theorem parseLetStatment_skips_expression:
  assumes "Type idt = IDENT" and "Type asg = ASSIGN"
    and "list_all (\<lambda>e. Type e \<noteq> SEMICOLON) es" and "Type semi = SEMICOLON"
  shows "parseLetStatment (New (lt # idt # asg # es @ semi # rest)) =
           Some (Some (LetStatement lt
                   (Some \<lparr>ident_Token = idt, ident_Value = Literal idt\<rparr>) None),
                 New (semi # rest))"
proof -
  have "list_all (\<lambda>e. Type e \<noteq> SEMICOLON) (asg # es)"
    using assms by simp
  then have "skipToSemicolon (parserAt [] ((asg # es) @ semi # rest)) =
             Some (parserAt [] (semi # rest))"
    using assms(4) by (rule skip_finds)
  then show ?thesis
    using assms(1,2) by (simp add: New_parserAt parseLet_parserAt)
qed

theorem parseLetStatment_skips_expression_witness:
  "Type (tok IDENT ''y'') = IDENT \<and> Type (tok ASSIGN ''='') = ASSIGN \<and>
   list_all (\<lambda>e. Type e \<noteq> SEMICOLON) [tok INT_lit ''1'', tok PLUS ''+'', tok INT_lit ''2''] \<and>
   Type (tok SEMICOLON '';'') = SEMICOLON \<and>
   parseLetStatment (New (tok LET ''let'' # tok IDENT ''y'' # tok ASSIGN ''='' #
       [tok INT_lit ''1'', tok PLUS ''+'', tok INT_lit ''2''] @
       tok SEMICOLON '';'' # [tok IDENT ''y''])) =
     Some (Some (LetStatement (tok LET ''let'')
                   (Some \<lparr>ident_Token = tok IDENT ''y'', ident_Value = ''y''\<rparr>) None),
           New (tok SEMICOLON '';'' # [tok IDENT ''y'']))"
  using parseLetStatment_skips_expression
          [where idt = "tok IDENT ''y''" and asg = "tok ASSIGN ''=''"
             and es = "[tok INT_lit ''1'', tok PLUS ''+'', tok INT_lit ''2'']"
             and semi = "tok SEMICOLON '';''" and lt = "tok LET ''let''"
             and rest = "[tok IDENT ''y'']"]
  by (simp add: tok_def)

text \<open>
  C5 (the node that \<^verbatim>\<open>parseReturnStatment\<close> returns holds the parsed expression as its
  return value). As stated the claim fails: on the token stream of \<^verbatim>\<open>return 5;\<close> the
  node's return-value field is nil, not the integer literal 5.
\<close>

theorem parseReturnStatment_value_unset:
  "parseReturnStatment (New tokens_return_5) =
     Some (Some (ReturnStatement (tok RETURN ''return'') None), New [tok SEMICOLON '';''])"
  by code_simp

text \<open>
  C5, as the code has it: on a token stream that has a semicolon after its first token
  (the \<^verbatim>\<open>return\<close>), \<^verbatim>\<open>parseReturnStatment\<close> returns a node with that first token and no
  return-value expression. The tokens up to the first semicolon are skipped: the parser
  is left on that semicolon, with no diagnostic.
\<close>

theorem parseReturnStatment_skips_expression:
  assumes "list_all (\<lambda>e. Type e \<noteq> SEMICOLON) es" and "Type semi = SEMICOLON"
  shows "parseReturnStatment (New (rt # es @ semi # rest)) =
           Some (Some (ReturnStatement rt None), New (semi # rest))"
  using assms by (simp add: New_parserAt parseReturn_parserAt skip_finds)

theorem parseReturnStatment_skips_expression_witness:
  "list_all (\<lambda>e. Type e \<noteq> SEMICOLON) [tok IDENT ''a'', tok ASTERISK ''*'', tok INT_lit ''2''] \<and>
   Type (tok SEMICOLON '';'') = SEMICOLON \<and>
   parseReturnStatment (New (tok RETURN ''return'' #
       [tok IDENT ''a'', tok ASTERISK ''*'', tok INT_lit ''2''] @ tok SEMICOLON '';'' # [])) =
     Some (Some (ReturnStatement (tok RETURN ''return'') None), New (tok SEMICOLON '';'' # []))"
  using parseReturnStatment_skips_expression
          [where es = "[tok IDENT ''a'', tok ASTERISK ''*'', tok INT_lit ''2'']"
             and semi = "tok SEMICOLON '';''" and rt = "tok RETURN ''return''" and rest = "[]"]
  by (simp add: tok_def)

text \<open>
  C6 (the contract of \<^verbatim>\<open>expectPeek\<close>). If the peek token is not of the required kind,
  \<^verbatim>\<open>expectPeek\<close> returns false and appends exactly one diagnostic, "expected next token
  to be K, got K' instead" with the required kind K and the kind K' of the peek token;
  the current token, the peek token and the lexer are as before (nothing is consumed).
  If the peek token is of the required kind, it returns true and advances by one token:
  the peek token becomes the current one, the next token of the lexer becomes the peek
  token, and the diagnostics are as before.
\<close>

theorem expectPeek_contract:
  "(Type (peekToken p) \<noteq> t \<longrightarrow>
      expectPeek p t =
        (False, p\<lparr>errors := errors p @
           [''expected next token to be '' @ TokenType_String t @ '', got '' @
            TokenType_String (Type (peekToken p)) @ '' instead'']\<rparr>) \<and>
      curToken (snd (expectPeek p t)) = curToken p \<and>
      peekToken (snd (expectPeek p t)) = peekToken p \<and>
      l (snd (expectPeek p t)) = l p) \<and>
   (Type (peekToken p) = t \<longrightarrow>
      expectPeek p t = (True, nextToken p) \<and>
      curToken (nextToken p) = peekToken p \<and>
      peekToken (nextToken p) = fst (NextToken (l p)) \<and>
      l (nextToken p) = snd (NextToken (l p)) \<and>
      errors (nextToken p) = errors p)"
  by (simp add: expectPeek_def peekTokenIs_def peekErrors_def nextToken_def case_prod_beta)

theorem expectPeek_contract_witness:
  "Type (peekToken (New tokens_let_x_5)) \<noteq> ASSIGN \<and>
   expectPeek (New tokens_let_x_5) ASSIGN =
     (False, \<lparr>l = [tok INT_lit ''5'', tok SEMICOLON '';''], curToken = tok LET ''let'',
              peekToken = tok IDENT ''x'',
              errors = [''expected next token to be '' @ TokenType_String ASSIGN @ '', got '' @
                        TokenType_String IDENT @ '' instead'']\<rparr>) \<and>
   Type (peekToken (New tokens_let_x_5)) = IDENT \<and>
   expectPeek (New tokens_let_x_5) IDENT =
     (True, \<lparr>l = [tok SEMICOLON '';''], curToken = tok IDENT ''x'',
             peekToken = tok INT_lit ''5'', errors = []\<rparr>)"
  using expectPeek_contract [of "New tokens_let_x_5" ASSIGN]
    expectPeek_contract [of "New tokens_let_x_5" IDENT]
  by (simp add: tokens_let_x_5_def tok_def New_def nextToken_def)

text \<open>
  C7 (the malformed input \<^verbatim>\<open>let x 5;\<close>). \<^verbatim>\<open>ParseProgram\<close> returns; the diagnostic of the
  failed \<^verbatim>\<open>expectPeek(token.ASSIGN)\<close> is the one entry of the error list; and what the
  statement contributes to the program is no node: \<^verbatim>\<open>parseLetStatment\<close> returns nil,
  which \<^verbatim>\<open>parseStatement\<close> hands on as a statement value that holds a nil
  \<^verbatim>\<open>*ast.LetStatement\<close>, and the loop appends that value. The tokens \<^verbatim>\<open>5\<close> and \<^verbatim>\<open>;\<close> that
  follow add nothing.
\<close>

theorem ParseProgram_let_without_assign:
  "parseResult tokens_let_x_5 =
     Some (\<lparr>Statements = [LetStatement_ptr None]\<rparr>,
           [''expected next token to be '' @ TokenType_String ASSIGN @ '', got '' @
            TokenType_String INT_lit @ '' instead''])"
  by code_simp

text \<open>
  C8 (diagnostics block the evaluation of a line). If the parse of the line returns with
  one diagnostic or more, the shell writes the banner, the two header lines and every
  diagnostic (after a tab, before a newline) and does not call the evaluator. If it
  returns without diagnostics, the shell calls the evaluator with the program, then
  writes the \<^verbatim>\<open>Inspect\<close> rendering of the object that comes back and a newline; when the
  evaluator returns nil there is no object and nothing is written.
\<close>

theorem replLine_gates_evaluation:
  "(ParseProgram (New lx) = Some (program, p') \<and> Errors p' \<noteq> [] \<longrightarrow>
      replLine Eval Inspect String lx = Some (printParserErrors (Errors p')) \<and>
      evalCalls (printParserErrors (Errors p')) = [] \<and>
      written (printParserErrors (Errors p')) =
        [MONKEY_FACE, ''Woops! We ran into some monkey business here!\<newline>'',
         '' parser errors:\<newline>''] @
        map (\<lambda>msg. [CHR 0x09] @ msg @ ''\<newline>'') (Errors p')) \<and>
   (ParseProgram (New lx) = Some (program, p') \<and> Errors p' = [] \<longrightarrow>
      replLine Eval Inspect String lx =
        Some (EvalCall program #
              (case Eval program of
                 Some obj \<Rightarrow> [Out (Inspect obj), Out ''\<newline>'']
               | None \<Rightarrow> [])))"
  by (simp add: replLine_def DEBUG_def evalCalls_printParserErrors written_printParserErrors)

theorem replLine_gates_evaluation_witness:
  "ParseProgram (New tokens_let_x_5) =
     Some (\<lparr>Statements = [LetStatement_ptr None]\<rparr>,
           (New [])\<lparr>errors := [''expected next token to be '' @ TokenType_String ASSIGN @
                                '', got '' @ TokenType_String INT_lit @ '' instead'']\<rparr>) \<and>
   Errors ((New [])\<lparr>errors := [''expected next token to be '' @ TokenType_String ASSIGN @
                                '', got '' @ TokenType_String INT_lit @ '' instead'']\<rparr>) \<noteq> [] \<and>
   Errors (New []) = [] \<and>
   replLine (\<lambda>program. Some (length (Statements program))) (\<lambda>n. replicate n CHR ''*'')
       (\<lambda>program. []) tokens_let_x_5 =
     Some [Out MONKEY_FACE, Out ''Woops! We ran into some monkey business here!\<newline>'',
           Out '' parser errors:\<newline>'',
           Out ([CHR 0x09] @ ''expected next token to be '' @ TokenType_String ASSIGN @
                '', got '' @ TokenType_String INT_lit @ '' instead'' @ ''\<newline>'')] \<and>
   ParseProgram (New tokens_return_5) =
     Some (\<lparr>Statements = [ReturnStatement_ptr (Some (ReturnStatement (tok RETURN ''return'') None))]\<rparr>,
           New []) \<and>
   replLine (\<lambda>program. Some (length (Statements program))) (\<lambda>n. replicate n CHR ''*'')
       (\<lambda>program. []) tokens_return_5 =
     Some [EvalCall \<lparr>Statements = [ReturnStatement_ptr
                       (Some (ReturnStatement (tok RETURN ''return'') None))]\<rparr>,
           Out ''*'', Out ''\<newline>'']"
proof -
  have r1: "ParseProgram (New tokens_let_x_5) =
     Some (\<lparr>Statements = [LetStatement_ptr None]\<rparr>,
           (New [])\<lparr>errors := [''expected next token to be '' @ TokenType_String ASSIGN @
                                '', got '' @ TokenType_String INT_lit @ '' instead'']\<rparr>)"
    by code_simp
  have r2: "ParseProgram (New tokens_return_5) =
     Some (\<lparr>Statements = [ReturnStatement_ptr (Some (ReturnStatement (tok RETURN ''return'') None))]\<rparr>,
           New [])"
    by code_simp
  show ?thesis
    using r1 r2
      replLine_gates_evaluation [where lx = tokens_let_x_5
        and program = "\<lparr>Statements = [LetStatement_ptr None]\<rparr>"
        and p' = "(New [])\<lparr>errors := [''expected next token to be '' @ TokenType_String ASSIGN @
                                '', got '' @ TokenType_String INT_lit @ '' instead'']\<rparr>"
        and Eval = "\<lambda>program. Some (length (Statements program))"
        and Inspect = "\<lambda>n. replicate n CHR ''*''" and String = "\<lambda>program. []"]
      replLine_gates_evaluation [where lx = tokens_return_5
        and program = "\<lparr>Statements = [ReturnStatement_ptr
                       (Some (ReturnStatement (tok RETURN ''return'') None))]\<rparr>"
        and p' = "New []"
        and Eval = "\<lambda>program. Some (length (Statements program))"
        and Inspect = "\<lambda>n. replicate n CHR ''*''" and String = "\<lambda>program. []"]
    by (simp add: Errors_def New_def printParserErrors_def)
qed

text \<open>
  C10 (statements that start with neither \<^verbatim>\<open>let\<close> nor \<^verbatim>\<open>return\<close> are dropped).
  \<^item> On a current token that is neither \<^verbatim>\<open>LET\<close> nor \<^verbatim>\<open>RETURN\<close>, \<^verbatim>\<open>parseStatement\<close>
    returns the nil statement and leaves the parser as it is: no node, no diagnostic.
  \<^item> If that token is not the end of input either, the turn of the loop of
    \<^verbatim>\<open>ParseProgram\<close> only advances by one token; the statements collected stay as they are.
  \<^item> So a token stream without any \<^verbatim>\<open>LET\<close> or \<^verbatim>\<open>RETURN\<close> token yields a program without
    statements and no diagnostics.
  \<^item> Whatever the token stream, every entry of the program that \<^verbatim>\<open>ParseProgram\<close> returns
    is of type \<^verbatim>\<open>*ast.LetStatement\<close> or \<^verbatim>\<open>*ast.ReturnStatement\<close>.
\<close>

theorem ParseProgram_drops_other_statements:
  "(Type (curToken p) \<noteq> LET \<and> Type (curToken p) \<noteq> RETURN \<longrightarrow>
      parseStatement p = Some (None, p)) \<and>
   (Type (curToken p) \<noteq> LET \<and> Type (curToken p) \<noteq> RETURN \<and> Type (curToken p) \<noteq> EOF \<longrightarrow>
      ParseProgram_loop p stmts = ParseProgram_loop (nextToken p) stmts) \<and>
   (list_all (\<lambda>t. Type t \<noteq> LET \<and> Type t \<noteq> RETURN) ts \<longrightarrow>
      parseResult ts = Some (\<lparr>Statements = []\<rparr>, [])) \<and>
   (ParseProgram q = Some (program, q') \<longrightarrow> list_all isLetOrReturn (Statements program))"
proof (intro conjI impI)
  assume "Type (curToken p) \<noteq> LET \<and> Type (curToken p) \<noteq> RETURN"
  then show "parseStatement p = Some (None, p)"
    by (simp add: parseStatement_default)
next
  assume "Type (curToken p) \<noteq> LET \<and> Type (curToken p) \<noteq> RETURN \<and> Type (curToken p) \<noteq> EOF"
  then show "ParseProgram_loop p stmts = ParseProgram_loop (nextToken p) stmts"
    by (simp add: loop_step parseStatement_default)
next
  assume "list_all (\<lambda>t. Type t \<noteq> LET \<and> Type t \<noteq> RETURN) ts"
  from loop_drops_all [OF this, of "[]" "[]"]
  show "parseResult ts = Some (\<lparr>Statements = []\<rparr>, [])"
    by (simp add: parseResult_def ParseProgram_def New_parserAt)
next
  assume "ParseProgram q = Some (program, q')"
  then have "ParseProgram_loop q [] = Some (program, q')"
    by (simp add: ParseProgram_def)
  from loop_only_let_return [OF this]
  show "list_all isLetOrReturn (Statements program)" by simp
qed

theorem ParseProgram_drops_other_statements_witness:
  "Type (curToken (New tokens_x)) \<noteq> LET \<and> Type (curToken (New tokens_x)) \<noteq> RETURN \<and>
   Type (curToken (New tokens_x)) \<noteq> EOF \<and>
   parseStatement (New tokens_x) = Some (None, New tokens_x) \<and>
   ParseProgram_loop (New tokens_x) [] = ParseProgram_loop (New [tok SEMICOLON '';'']) [] \<and>
   list_all (\<lambda>t. Type t \<noteq> LET \<and> Type t \<noteq> RETURN) tokens_x \<and>
   parseResult tokens_x = Some (\<lparr>Statements = []\<rparr>, []) \<and>
   ParseProgram (New tokens_return_5) =
     Some (\<lparr>Statements = [ReturnStatement_ptr (Some (ReturnStatement (tok RETURN ''return'') None))]\<rparr>,
           New []) \<and>
   list_all isLetOrReturn
     [ReturnStatement_ptr (Some (ReturnStatement (tok RETURN ''return'') None))]"
proof -
  have run: "ParseProgram (New tokens_return_5) =
     Some (\<lparr>Statements = [ReturnStatement_ptr (Some (ReturnStatement (tok RETURN ''return'') None))]\<rparr>,
           New [])"
    by code_simp
  have nx: "nextToken (New tokens_x) = New [tok SEMICOLON '';'']"
    by (simp add: tokens_x_def New_parserAt nextToken_parserAt_Cons)
  have cur: "Type (curToken (New tokens_x)) = IDENT"
    by (simp add: tokens_x_def tok_def New_def)
  have ts: "list_all (\<lambda>t. Type t \<noteq> LET \<and> Type t \<noteq> RETURN) tokens_x"
    by (simp add: tokens_x_def tok_def)
  show ?thesis
    using ParseProgram_drops_other_statements [where p = "New tokens_x" and stmts = "[]" and ts = tokens_x
        and q = "New tokens_return_5"
        and program = "\<lparr>Statements = [ReturnStatement_ptr
              (Some (ReturnStatement (tok RETURN ''return'') None))]\<rparr>"
        and q' = "New []"]
      run nx cur ts
    by simp
qed

end
